theory Spec2Isabelle
  imports Complex_Main
begin

section \<open>Python values, exceptions and effects\<close>

text \<open>
  The Python exceptions the modules distinguish. \<open>EnvironmentError\<close> is Python 3's alias of
  \<open>OSError\<close>; \<open>Exception\<close> stands for any other subclass of \<open>Exception\<close>, with its message.
\<close>

datatype py_exception =
  OSError string
  | ImportError string
  | TypeError string
  | Exception string

text \<open>One turn of a conversation: the dict \<open>{"role": ..., "content": ...}\<close>.\<close>

record message =
  role :: string
  content :: string

text \<open>
  A Python computation over a mutable state: it returns a value or raises, and leaves the
  state as it was at that moment.
\<close>

type_synonym ('a, 'st) py = "'st \<Rightarrow> (py_exception + 'a) \<times> 'st"

definition py_return :: "'a \<Rightarrow> ('a, 'st) py" where
  "py_return a s = (Inr a, s)"

definition py_bind :: "('a, 'st) py \<Rightarrow> ('a \<Rightarrow> ('b, 'st) py) \<Rightarrow> ('b, 'st) py" where
  "py_bind m f s = (case m s of (Inl e, s') \<Rightarrow> (Inl e, s') | (Inr a, s') \<Rightarrow> f a s')"

section \<open>core/llm_solver.py\<close>

text \<open>
  \<open>LLMSolver\<close> holds a model name. \<open>generate_response\<close> calls \<open>ollama.chat\<close> (the external
  transport, a parameter acting on the outside world \<open>'w\<close>) in streaming mode and
  concatenates the chunks; a transport failure propagates.
\<close>

type_synonym 'w ollama_chat = "string \<Rightarrow> message list \<Rightarrow> ('w \<Rightarrow> (py_exception + string list) \<times> 'w)"

definition generate_response :: "'w ollama_chat \<Rightarrow> string \<Rightarrow> message list \<Rightarrow> (string, 'w) py" where
  "generate_response chat model msgs =
     py_bind (chat model msgs) (\<lambda>stream. py_return (concat stream))"

section \<open>core/domain.py: the capability contract\<close>

text \<open>
  \<open>DomainInterface\<close>: abstract methods over problems \<open>'p\<close>, solutions \<open>'s\<close>, feedback \<open>'f\<close>
  and S2 metadata \<open>'m\<close>. Each method may act on the outside world and may raise.
  \<open>run_s2_solver\<close> receives the problem and the S2 \<open>LLMSolver\<close> (its model name).
\<close>

record ('w, 'p, 's, 'f, 'm) domain =
  validate_solution :: "'p \<Rightarrow> 's \<Rightarrow> (bool \<times> 'f, 'w) py"
  build_prompt :: "'p \<Rightarrow> (string \<times> string) list option \<Rightarrow> (string, 'w) py"
  parse_solution :: "string \<Rightarrow> ('s, 'w) py"
  run_s2_solver :: "'p \<Rightarrow> string \<Rightarrow> ('s \<times> 'm, 'w) py"
  get_problem_representation :: "'p \<Rightarrow> (string, 'w) py"
  format_solution_for_memory :: "'s \<Rightarrow> (string, 'w) py"
  format_feedback :: "'f \<Rightarrow> (string, 'w) py"

section \<open>core/metacognitive_module.py\<close>

text \<open>
  What \<open>MCModule\<close> imports and the sources do not contain, as parameters: the clock
  \<open>time.time\<close>, the transport \<open>ollama.chat\<close>, \<open>EpisodicMemory.retrieve_similar\<close> (called with
  the problem representation only), and the \<open>ImprovementTrendEvaluator\<close> with its history \<open>'h\<close>.
\<close>

record ('w, 'f, 'h) runtime =
  time_time :: "'w \<Rightarrow> real \<times> 'w"
  ollama_chat :: "'w ollama_chat"
  retrieve_similar :: "(string \<times> string) list \<Rightarrow> string \<Rightarrow> py_exception + (string \<times> string) list"
  ImprovementTrendEvaluator :: "'h"
  update_feedback :: "'h \<Rightarrow> 'f \<Rightarrow> py_exception + 'h"
  get_no_improvement_flag :: "'h \<Rightarrow> py_exception + bool"

text \<open>The attributes \<open>__init__\<close> sets; \<open>episodic_memory\<close> is mutable and lives in the run state.\<close>

record ('w, 'p, 's, 'f, 'm) MCModule =
  domain :: "('w, 'p, 's, 'f, 'm) domain"
  llm_solver :: string
  s2_llm_solver :: string
  max_iterations :: int

text \<open>
  Observations of one \<open>solve\<close> call, recorded where the call happens: the S1 agent call of an
  iteration, the verdict of \<open>validate_solution\<close> in an iteration, the S2 invocation.
\<close>

datatype ('p, 's) event =
  is_S1_call: S1_call int "message list"
  | is_Validated: Validated int 's bool
  | is_S2_call: S2_call 'p

record ('w, 'p, 's) run_state =
  world :: 'w
  memory :: "(string \<times> string) list"
  trace :: "('p, 's) event list"

definition in_world :: "('a, 'w) py \<Rightarrow> ('a, ('w, 'p, 's) run_state) py" where
  "in_world f s = (case f (world s) of (r, w') \<Rightarrow> (r, s\<lparr>world := w'\<rparr>))"

definition now :: "('w, 'f, 'h) runtime \<Rightarrow> (real, ('w, 'p, 's) run_state) py" where
  "now rt s = (case time_time rt (world s) of (t, w') \<Rightarrow> (Inr t, s\<lparr>world := w'\<rparr>))"

definition raise_or :: "py_exception + 'a \<Rightarrow> ('a, 'st) py" where
  "raise_or r s = (r, s)"

definition observe :: "('p, 's) event \<Rightarrow> (unit, ('w, 'p, 's) run_state) py" where
  "observe ev s = (Inr (), s\<lparr>trace := trace s @ [ev]\<rparr>)"

text \<open>
  Modelled from the spec: \<open>EpisodicMemory.add_memory\<close> of core/episodic_memory.py, which is not
  among the sources. "\<open>add(problem_repr, solution_repr)\<close>: appends a MemoryEntry. No
  deduplication, no capacity bound, no eviction".
\<close>

definition add_memory :: "string \<Rightarrow> string \<Rightarrow> (unit, ('w, 'p, 's) run_state) py" where
  "add_memory problem_repr solution_repr s =
     (Inr (), s\<lparr>memory := memory s @ [(problem_repr, solution_repr)]\<rparr>)"

text \<open>The local variables of \<open>solve\<close> that the loop reads and writes.\<close>

record ('s, 'h) locals =
  iteration :: int
  s1_time :: real
  s2_time :: real
  s1_solved :: bool
  s2_solved :: bool
  solution :: "'s option"
  trend_evaluator :: 'h
  messages :: "message list"

datatype control = Break | Continue

text \<open>
  One pass through the body of \<open>while iteration < self.max_iterations\<close>. Console output is
  not modelled, but the call of \<open>format_feedback\<close> that the verbose branch makes is.
  In \<open>iteration == self.max_iterations or trend_evaluator.get_no_improvement_flag()\<close> the
  flag is read only when the first disjunct is false.
\<close>

definition s1_round ::
  "('w, 'f, 'h) runtime \<Rightarrow> ('w, 'p, 's, 'f, 'm) MCModule \<Rightarrow> 'p \<Rightarrow> string \<Rightarrow> bool \<Rightarrow> ('s, 'h) locals
    \<Rightarrow> (control \<times> ('s, 'h) locals, ('w, 'p, 's) run_state) py" where
  "s1_round rt self problem problem_repr verbose L0 =
    (let L1 = L0\<lparr>iteration := iteration L0 + 1\<rparr> in
     py_bind (now rt) (\<lambda>s1_iter_start.
     py_bind (observe (S1_call (iteration L1) (messages L1))) (\<lambda>_.
     py_bind (in_world (generate_response (ollama_chat rt) (llm_solver self) (messages L1))) (\<lambda>llm_response.
     py_bind (now rt) (\<lambda>s1_iter_end.
     let L2 = L1\<lparr>s1_time := s1_time L1 + (s1_iter_end - s1_iter_start)\<rparr> in
     py_bind (in_world (parse_solution (domain self) llm_response)) (\<lambda>sol.
     let L3 = L2\<lparr>solution := Some sol\<rparr> in
     py_bind (in_world (validate_solution (domain self) problem sol)) (\<lambda>(is_valid, feedback).
     py_bind (observe (Validated (iteration L3) sol is_valid)) (\<lambda>_.
     if is_valid then
       (let L4 = L3\<lparr>s1_solved := True\<rparr> in
        py_bind (in_world (format_solution_for_memory (domain self) sol)) (\<lambda>solution_repr.
        py_bind (add_memory problem_repr solution_repr) (\<lambda>_.
        py_return (Break, L4))))
     else
       py_bind (if verbose
                then py_bind (in_world (format_feedback (domain self) feedback)) (\<lambda>_. py_return ())
                else py_return ()) (\<lambda>_.
       py_bind (raise_or (update_feedback rt (trend_evaluator L3) feedback)) (\<lambda>h.
       let L4 = L3\<lparr>trend_evaluator := h\<rparr> in
       py_bind (if iteration L4 = max_iterations self then py_return True
                else raise_or (get_no_improvement_flag rt h)) (\<lambda>escalate.
       if escalate then
         py_bind (now rt) (\<lambda>s2_start.
         py_bind (observe (S2_call problem)) (\<lambda>_.
         py_bind (in_world (run_s2_solver (domain self) problem (s2_llm_solver self))) (\<lambda>(s2_solution, s2_metadata).
         py_bind (now rt) (\<lambda>s2_end.
         let L5 = L4\<lparr>s2_time := s2_end - s2_start, solution := Some s2_solution, s2_solved := True\<rparr> in
         py_bind (in_world (format_solution_for_memory (domain self) s2_solution)) (\<lambda>solution_repr.
         py_bind (add_memory problem_repr solution_repr) (\<lambda>_.
         py_return (Break, L5)))))))
       else
         py_bind (in_world (format_feedback (domain self) feedback)) (\<lambda>feedback_str.
         py_return (Continue, L4\<lparr>messages := messages L4 @
           [\<lparr>role = ''assistant'', content = llm_response\<rparr>,
            \<lparr>role = ''user'', content = ''Feedback: '' @ feedback_str\<rparr>]\<rparr>)))))))))))))"

text \<open>A round that returns has advanced the iteration counter by one.\<close>

lemma s1_round_iteration:
  "s1_round rt self problem problem_repr verbose L s = (Inr (c, L'), s') \<Longrightarrow> iteration L' = iteration L + 1"
  unfolding s1_round_def py_bind_def py_return_def observe_def add_memory_def raise_or_def Let_def
  by (auto split: prod.splits sum.splits if_splits)

text \<open>The \<open>while\<close> loop: it ends when the bound is reached, at a \<open>break\<close>, or by an exception.\<close>

function refine ::
  "('w, 'f, 'h) runtime \<Rightarrow> ('w, 'p, 's, 'f, 'm) MCModule \<Rightarrow> 'p \<Rightarrow> string \<Rightarrow> bool \<Rightarrow> ('s, 'h) locals
    \<Rightarrow> (('s, 'h) locals, ('w, 'p, 's) run_state) py" where
  "refine rt self problem problem_repr verbose L s =
     (if iteration L < max_iterations self then
        (case s1_round rt self problem problem_repr verbose L s of
           (Inl e, s') \<Rightarrow> (Inl e, s')
         | (Inr (Break, L'), s') \<Rightarrow> (Inr L', s')
         | (Inr (Continue, L'), s') \<Rightarrow> refine rt self problem problem_repr verbose L' s')
      else (Inr L, s))"
  by pat_completeness auto
termination
  apply (relation "measure (\<lambda>(rt, self, problem, problem_repr, verbose, L, s). nat (max_iterations self - iteration L))")
   apply simp
  apply (auto dest!: s1_round_iteration [OF sym])
  done

text \<open>The dict that \<open>solve\<close> returns.\<close>

record 's outcome =
  res_solved :: bool
  res_solution :: "'s option"
  res_s1_solved :: bool
  res_s2_solved :: bool
  res_iterations :: int
  res_s1_time :: real
  res_s2_time :: real
  res_total_time :: real

definition solve ::
  "('w, 'f, 'h) runtime \<Rightarrow> ('w, 'p, 's, 'f, 'm) MCModule \<Rightarrow> 'p \<Rightarrow> bool
    \<Rightarrow> ('s outcome, ('w, 'p, 's) run_state) py" where
  "solve rt self problem verbose =
     py_bind (now rt) (\<lambda>start_time.
     py_bind (in_world (get_problem_representation (domain self) problem)) (\<lambda>problem_repr.
     py_bind (\<lambda>s. if memory s \<noteq> []
                   then py_bind (raise_or (retrieve_similar rt (memory s) problem_repr))
                          (\<lambda>examples. py_return (Some examples)) s
                   else py_return None s) (\<lambda>episodic_examples.
     py_bind (in_world (build_prompt (domain self) problem episodic_examples)) (\<lambda>initial_prompt.
     py_bind (refine rt self problem problem_repr verbose
                \<lparr>iteration = 0, s1_time = 0, s2_time = 0, s1_solved = False, s2_solved = False,
                 solution = None, trend_evaluator = ImprovementTrendEvaluator rt,
                 messages = [\<lparr>role = ''user'', content = initial_prompt\<rparr>]\<rparr>) (\<lambda>L.
     py_bind (now rt) (\<lambda>end_time.
     py_return
       \<lparr>res_solved = (s1_solved L \<or> s2_solved L),
        res_solution = solution L,
        res_s1_solved = s1_solved L,
        res_s2_solved = s2_solved L,
        res_iterations = iteration L,
        res_s1_time = s1_time L,
        res_s2_time = s2_time L,
        res_total_time = end_time - start_time\<rparr>))))))"

section \<open>core/metacognitive_module.py: the constructor\<close>







section \<open>core/improvement_trend_evaluator.py\<close>

text \<open>
  Modelled from the spec: \<open>ImprovementTrendEvaluator.update_feedback\<close> of
  core/improvement_trend_evaluator.py, which is not among the sources. "\<open>update(feedback_sample)\<close>:
  appends the sample to the attempt history", an "ordered sequence of FeedbackSample,
  most-recent-last".
\<close>

definition trend_update :: "'f list \<Rightarrow> 'f \<Rightarrow> 'f list" where
  "trend_update history feedback_sample = history @ [feedback_sample]"

text \<open>
  Modelled from the spec: \<open>ImprovementTrendEvaluator.get_no_improvement_flag\<close>, likewise absent.
  "\<open>no_improvement()\<close>: if fewer than two samples exist, returns false; otherwise compares the latest
  sample against the previous one using a domain-agnostic distance (e.g., size of the violation
  set) and returns true iff the distance indicates no measurable reduction in errors. If feedback
  is not comparable, treat as no improvement". The measure \<open>badness\<close>, supplied per domain, gives a
  sample its size, or \<open>None\<close> when it has none that can be compared.
\<close>

definition no_improvement :: "('f \<Rightarrow> nat option) \<Rightarrow> 'f list \<Rightarrow> bool" where
  "no_improvement badness history =
     (if length history < 2 then False
      else (case (badness (last (butlast history)), badness (last history)) of
              (Some previous, Some latest) \<Rightarrow> \<not> latest < previous
            | _ \<Rightarrow> True))"

section \<open>Python strings and dicts\<close>

text \<open>
  Strings are lists of characters, restricted to ASCII: the classes below are those of
  \<open>str.isspace\<close>, of \<open>\s\<close>, \<open>\w\<close> and \<open>\d\<close> on code points below 128.
\<close>

definition isspace :: "char \<Rightarrow> bool" where
  "isspace c = (c \<in> set [CHR '' '', CHR 0x09, CHR 0x0A, CHR 0x0B, CHR 0x0C, CHR 0x0D,
                           CHR 0x1C, CHR 0x1D, CHR 0x1E, CHR 0x1F])"

definition isdigit :: "char \<Rightarrow> bool" where
  "isdigit c = (c \<in> set ''0123456789'')"

definition isword :: "char \<Rightarrow> bool" where
  "isword c = (c \<in> set (''abcdefghijklmnopqrstuvwxyz'' @ ''ABCDEFGHIJKLMNOPQRSTUVWXYZ'' @ ''0123456789_''))"

text \<open>\<open>s.strip()\<close>\<close>

definition strip :: "string \<Rightarrow> string" where
  "strip s = rev (dropWhile isspace (rev (dropWhile isspace s)))"

text \<open>\<open>s.split('\n')\<close>: never empty, \<open>''.split('\n') == ['']\<close>.\<close>

fun split_newline :: "string \<Rightarrow> string list" where
  "split_newline [] = [[]]"
| "split_newline (c # cs) =
     (if c = CHR 0x0A then [] # split_newline cs
      else (case split_newline cs of [] \<Rightarrow> [[c]] | line # rest \<Rightarrow> (c # line) # rest))"

text \<open>\<open>sep.join(xs)\<close>\<close>

fun join :: "string \<Rightarrow> string list \<Rightarrow> string" where
  "join sep [] = []"
| "join sep [x] = x"
| "join sep (x # y # ys) = x @ sep @ join sep (y # ys)"

text \<open>\<open>int(ds)\<close> for a string of decimal digits (the interpreter's limit on the number of digits
  is not modelled).\<close>

definition int_of_digits :: "string \<Rightarrow> int" where
  "int_of_digits ds = foldl (\<lambda>n c. 10 * n + (of_char c - 48)) 0 ds"

text \<open>\<open>str(n)\<close> for an integer.\<close>

function str_nat :: "nat \<Rightarrow> string" where
  "str_nat n = (if n < 10 then [''0123456789'' ! n] else str_nat (n div 10) @ [''0123456789'' ! (n mod 10)])"
  by pat_completeness auto
termination
  by (relation "measure id") auto

declare str_nat.simps [simp del]

definition str_int :: "int \<Rightarrow> string" where
  "str_int i = (if i < 0 then CHR ''-'' # str_nat (nat (- i)) else str_nat (nat i))"

text \<open>A dict keeps insertion order; \<open>d[k] = v\<close> replaces the value of a present key in place.\<close>

fun dict_set :: "('k \<times> 'v) list \<Rightarrow> 'k \<Rightarrow> 'v \<Rightarrow> ('k \<times> 'v) list" where
  "dict_set [] k v = [(k, v)]"
| "dict_set ((k', v') # d) k v = (if k' = k then (k', v) # d else (k', v') # dict_set d k v)"

section \<open>domains/graph_coloring/solution_parser.py\<close>

text \<open>
  \<open>pattern.match(line)\<close> for \<open>\((\w+)\s+(\d+)\)\<close>, anchored at the start of the line: the two
  groups, or \<open>None\<close>. The three classes are pairwise exclusive where they meet, so the greedy
  scan never has to backtrack.
\<close>

definition match_assignment :: "string \<Rightarrow> (string \<times> string) option" where
  "match_assignment line =
     (case line of
        [] \<Rightarrow> None
      | c # rest \<Rightarrow>
          if c \<noteq> CHR ''('' then None
          else
            let vertex = takeWhile isword rest;
                after_vertex = dropWhile isword rest;
                after_space = dropWhile isspace after_vertex;
                color = takeWhile isdigit after_space;
                after_color = dropWhile isdigit after_space
            in if vertex \<noteq> [] \<and> after_space \<noteq> after_vertex \<and> color \<noteq> []
                  \<and> after_color \<noteq> [] \<and> hd after_color = CHR '')''
               then Some (vertex, color) else None)"

definition parse_coloring :: "string \<Rightarrow> (string \<times> int) list" where
  "parse_coloring response =
     foldl (\<lambda>coloring_assignment line.
              case match_assignment (strip line) of
                Some (vertex, color) \<Rightarrow> dict_set coloring_assignment vertex (int_of_digits color)
              | None \<Rightarrow> coloring_assignment)
       [] (split_newline (strip response))"

section \<open>domains/graph_coloring/graph_coloring_domain.py\<close>

record GraphColoringProblem =
  file_path :: string
  min_colors :: int
  graph_repr :: string

text \<open>
  The modules the domain imports and the sources do not contain, as parameters:
  \<open>prompt_generator(graph_repr, min_colors, additional_examples)\<close> and
  \<open>GraphColoringValidator(file_path).validate_coloring(solution)\<close>.
\<close>

type_synonym 'w prompt_generator =
  "string \<Rightarrow> int \<Rightarrow> (string \<times> string) list option \<Rightarrow> (string, 'w) py"

type_synonym 'w validate_coloring =
  "string \<Rightarrow> (string \<times> int) list \<Rightarrow> (bool \<times> (string \<times> string) list, 'w) py"

definition gc_validate_solution ::
  "'w validate_coloring \<Rightarrow> GraphColoringProblem \<Rightarrow> (string \<times> int) list
    \<Rightarrow> (bool \<times> (string \<times> string) list option, 'w) py" where
  "gc_validate_solution validate_coloring problem sol =
     py_bind (validate_coloring (file_path problem) sol) (\<lambda>(is_valid, errors).
     py_return (is_valid, if errors \<noteq> [] then Some errors else None))"

definition gc_build_prompt ::
  "'w prompt_generator \<Rightarrow> GraphColoringProblem \<Rightarrow> (string \<times> string) list option \<Rightarrow> (string, 'w) py" where
  "gc_build_prompt prompt_generator problem episodic_examples =
     prompt_generator (graph_repr problem) (min_colors problem) episodic_examples"

definition gc_run_s2_solver ::
  "'w ollama_chat \<Rightarrow> 'w prompt_generator \<Rightarrow> GraphColoringProblem \<Rightarrow> string
    \<Rightarrow> ((string \<times> int) list \<times> int, 'w) py" where
  "gc_run_s2_solver chat prompt_generator problem model =
     py_bind (gc_build_prompt prompt_generator problem None) (\<lambda>initial_prompt.
     py_bind (generate_response chat model [\<lparr>role = ''user'', content = initial_prompt\<rparr>]) (\<lambda>llm_response.
     let sol = parse_coloring llm_response;
         max_color = (if sol \<noteq> [] then Max (set (map snd sol)) else 0)
     in py_return (sol, max_color)))"

definition gc_format_solution_for_memory :: "(string \<times> int) list \<Rightarrow> string" where
  "gc_format_solution_for_memory sol =
     join [CHR 0x0A] (map (\<lambda>(v, c). ''('' @ v @ '' '' @ str_int c @ '')'') sol)"

definition gc_format_feedback :: "(string \<times> string) list option \<Rightarrow> string" where
  "gc_format_feedback feedback =
     (case feedback of
        None \<Rightarrow> ''Solution is correct!''
      | Some edges \<Rightarrow>
          if edges = [] then ''Solution is correct!''
          else join '' | '' (map (\<lambda>(u, v). ''adjacent vertices '' @ u @ '' and '' @ v @ '' have the same color'') edges))"

definition GraphColoringDomain ::
  "'w ollama_chat \<Rightarrow> 'w prompt_generator \<Rightarrow> 'w validate_coloring
    \<Rightarrow> ('w, GraphColoringProblem, (string \<times> int) list, (string \<times> string) list option, int) domain" where
  "GraphColoringDomain chat prompt_generator validate_coloring =
     \<lparr>validate_solution = gc_validate_solution validate_coloring,
      build_prompt = gc_build_prompt prompt_generator,
      parse_solution = (\<lambda>llm_response. py_return (parse_coloring llm_response)),
      run_s2_solver = gc_run_s2_solver chat prompt_generator,
      get_problem_representation = (\<lambda>problem. py_return (graph_repr problem)),
      format_solution_for_memory = (\<lambda>sol. py_return (gc_format_solution_for_memory sol)),
      format_feedback = (\<lambda>feedback. py_return (gc_format_feedback feedback))\<rparr>"

section \<open>domains/code_debugging/solution_parser.py\<close>

text \<open>The text before and after the first occurrence of \<open>pat\<close>; \<open>pat in text\<close> is \<open>find_sub pat text \<noteq> None\<close>.\<close>

fun find_sub :: "string \<Rightarrow> string \<Rightarrow> (string \<times> string) option" where
  "find_sub pat [] = (if pat = [] then Some ([], []) else None)"
| "find_sub pat (c # cs) =
     (if take (length pat) (c # cs) = pat then Some ([], drop (length pat) (c # cs))
      else (case find_sub pat cs of
              None \<Rightarrow> None
            | Some (before, after) \<Rightarrow> Some (c # before, after)))"

text \<open>
  \<open>re.search(opening + r'\s*(.*?)\s*' + closing, text, re.DOTALL)\<close>: group 1 of the leftmost match,
  or \<open>None\<close>. The leftmost match starts at the first \<open>opening\<close> that a \<open>closing\<close> follows; the lazy
  group ends before the first such \<open>closing\<close>, and the two \<open>\s*\<close> take the white space around it
  (neither closing tag starts with white space).
\<close>

definition re_search_between :: "string \<Rightarrow> string \<Rightarrow> string \<Rightarrow> string option" where
  "re_search_between opening closing text =
     (case find_sub opening text of
        None \<Rightarrow> None
      | Some (before, rest) \<Rightarrow>
          (case find_sub closing rest of
             None \<Rightarrow> None
           | Some (inner, after) \<Rightarrow> Some (strip inner)))"

definition parse_fixed_code :: "string \<Rightarrow> string" where
  "parse_fixed_code llm_response =
     (case re_search_between ''<code>'' ''</code>'' llm_response of
        Some fixed_code \<Rightarrow> strip fixed_code
      | None \<Rightarrow>
          (case (if find_sub ''```python'' llm_response \<noteq> None
                 then re_search_between ''```python'' ''```'' llm_response else None) of
             Some code \<Rightarrow> strip code
           | None \<Rightarrow>
               (case (if find_sub ''```'' llm_response \<noteq> None
                      then re_search_between ''```'' ''```'' llm_response else None) of
                  Some code \<Rightarrow> strip code
                | None \<Rightarrow> strip llm_response)))"

section \<open>domains/code_debugging/validator.py\<close>











section \<open>Observations of a run\<close>

text \<open>
  What a collaborator can return, at some state of the outside world; the numbers of S1 and S2
  calls in a trace; and the verdicts that accepted a solution, with their iterations.
\<close>

definition results :: "('a, 'w) py \<Rightarrow> (py_exception + 'a) set" where
  "results f = {r. \<exists>w w'. f w = (r, w')}"

definition s1_calls :: "('p, 's) event list \<Rightarrow> nat" where
  "s1_calls tr = length (filter is_S1_call tr)"

definition s2_calls :: "('p, 's) event list \<Rightarrow> nat" where
  "s2_calls tr = length (filter is_S2_call tr)"

fun accepted :: "('p, 's) event list \<Rightarrow> (int \<times> 's) list" where
  "accepted [] = []"
| "accepted (Validated i sol True # tr) = (i, sol) # accepted tr"
| "accepted (ev # tr) = accepted tr"

section \<open>Concrete instances\<close>

text \<open>
  A small instance on which \<open>solve\<close> can be run: the world is a list of verdicts that
  \<open>validate_solution\<close> consumes and a clock that advances at each reading; the S1 agent always
  answers \<open>s1 answer\<close>, the S2 solver \<open>s2 answer\<close>, and the trend evaluator never signals.
\<close>

definition demo_domain :: "(bool list \<times> nat, string, string, string, unit) domain" where
  "demo_domain =
    \<lparr>validate_solution = (\<lambda>p sol (vs, n). case vs of
         [] \<Rightarrow> (Inr (False, ''conflict''), (vs, n))
       | v # vs' \<Rightarrow> (Inr (v, ''conflict''), (vs', n))),
     build_prompt = (\<lambda>p examples w. (Inr p, w)),
     parse_solution = (\<lambda>response w. (Inr response, w)),
     run_s2_solver = (\<lambda>p model w. (Inr (''s2 answer'', ()), w)),
     get_problem_representation = (\<lambda>p w. (Inr p, w)),
     format_solution_for_memory = (\<lambda>sol w. (Inr sol, w)),
     format_feedback = (\<lambda>f w. (Inr f, w))\<rparr>"

definition demo_runtime :: "(bool list \<times> nat, string, string list) runtime" where
  "demo_runtime =
    \<lparr>time_time = (\<lambda>(vs, n). (real n, (vs, Suc n))),
     ollama_chat = (\<lambda>model msgs w. (Inr [''s1 '', ''answer''], w)),
     retrieve_similar = (\<lambda>mem query. Inr (take 3 mem)),
     ImprovementTrendEvaluator = [],
     update_feedback = (\<lambda>h f. Inr (h @ [f])),
     get_no_improvement_flag = (\<lambda>h. Inr False)\<rparr>"

definition demo_module :: "int \<Rightarrow> (bool list \<times> nat, string, string, string, unit) MCModule" where
  "demo_module n = \<lparr>domain = demo_domain, llm_solver = ''gemma3:1b'', s2_llm_solver = ''deepseek-r1:1.5b'',
     max_iterations = n\<rparr>"

definition demo_state :: "bool list \<Rightarrow> (bool list \<times> nat, string, string) run_state" where
  "demo_state vs = \<lparr>world = (vs, 0), memory = [], trace = []\<rparr>"

text \<open>
  The same controller over a domain whose \<open>validate_solution\<close> accepts every candidate.
\<close>

definition accepting_module :: "int \<Rightarrow> (bool list \<times> nat, string, string, string, unit) MCModule" where
  "accepting_module n =
     \<lparr>domain = demo_domain\<lparr>validate_solution := (\<lambda>p sol w. (Inr (True, ''''), w))\<rparr>,
      llm_solver = ''gemma3:1b'', s2_llm_solver = ''deepseek-r1:1.5b'', max_iterations = n\<rparr>"

text \<open>
  And over a domain whose \<open>validate_solution\<close> rejects every candidate.
\<close>

definition rejecting_module :: "int \<Rightarrow> (bool list \<times> nat, string, string, string, unit) MCModule" where
  "rejecting_module n =
     \<lparr>domain = demo_domain\<lparr>validate_solution := (\<lambda>p sol w. (Inr (False, ''conflict''), w))\<rparr>,
      llm_solver = ''gemma3:1b'', s2_llm_solver = ''deepseek-r1:1.5b'', max_iterations = n\<rparr>"

text \<open>
  A graph colouring instance: the agent answers with two assignments, and the validator reports
  one conflict.
\<close>

definition demo_chat :: "unit ollama_chat" where
  "demo_chat = (\<lambda>model msgs w. (Inr [''(a 1)'', [CHR 0x0A], ''(b 2)''], w))"

definition demo_prompt_generator :: "unit prompt_generator" where
  "demo_prompt_generator = (\<lambda>g k examples w. (Inr (''Color '' @ g), w))"

definition demo_validate_coloring :: "unit validate_coloring" where
  "demo_validate_coloring = (\<lambda>path sol w. (Inr (False, [(''a'', ''b'')]), w))"

definition demo_graph :: GraphColoringProblem where
  "demo_graph = \<lparr>file_path = ''g.col'', min_colors = 2, graph_repr = ''e a b''\<rparr>"



section \<open>Reasoning about one round\<close>

lemma py_bindE:
  assumes "py_bind m f s = (r, s')"
  obtains (raised) e where "m s = (Inl e, s')" "r = Inl e"
        | (returned) a s1 where "m s = (Inr a, s1)" "f a s1 = (r, s')"
  using assms unfolding py_bind_def by (auto split: prod.splits sum.splits)

lemma nowE:
  assumes "now rt s = (r, s')"
  obtains t where "r = Inr t" "trace s' = trace s" "memory s' = memory s"
  using assms unfolding now_def by (auto split: prod.splits)

lemma in_worldE:
  assumes "in_world f s = (r, s')"
  obtains "r \<in> results f" "trace s' = trace s" "memory s' = memory s"
proof -
  obtain w' where w: "f (world s) = (r, w')" "s' = s\<lparr>world := w'\<rparr>"
    using assms by (auto simp: in_world_def split: prod.splits)
  from w(1) have "r \<in> results f" unfolding results_def by blast
  with w(2) show thesis using that by simp
qed

lemma observeE:
  assumes "observe ev s = (r, s')"
  obtains "r = Inr ()" "trace s' = trace s @ [ev]" "memory s' = memory s"
  using assms unfolding observe_def by auto

lemma add_memoryE:
  assumes "add_memory p q s = (r, s')"
  obtains "r = Inr ()" "trace s' = trace s" "memory s' = memory s @ [(p, q)]"
  using assms unfolding add_memory_def by auto

lemma raise_orE:
  assumes "raise_or x s = (r, s')"
  obtains "r = x" "s' = s"
  using assms unfolding raise_or_def by auto

lemma py_returnE:
  assumes "py_return x s = (r, s')"
  obtains "r = Inr x" "s' = s"
  using assms unfolding py_return_def by auto

lemmas py_elims = py_bindE nowE in_worldE observeE add_memoryE raise_orE py_returnE

lemma s1_round_counts:
  assumes "s1_round rt self problem pr verbose L s = (r, s')"
  shows "length (filter is_S1_call (trace s')) = length (filter is_S1_call (trace s)) + 1"
  using assms unfolding s1_round_def Let_def
  by (auto elim!: py_elims split: if_splits)

lemma accepted_append: "accepted (xs @ ys) = accepted xs @ accepted ys"
  by (induction xs rule: accepted.induct) auto

lemma s1_round_continue:
  assumes "s1_round rt self problem pr verbose L s = (Inr (Continue, L'), s')"
  shows "s2_calls (trace s') = s2_calls (trace s) \<and> accepted (trace s') = accepted (trace s)
    \<and> memory s' = memory s \<and> s1_solved L' = s1_solved L \<and> s2_solved L' = s2_solved L
    \<and> s2_time L' = s2_time L \<and> iteration L' = iteration L + 1 \<and> iteration L' \<noteq> max_iterations self"
  using assms unfolding s1_round_def Let_def
  by (auto elim!: py_elims split: if_splits simp: s2_calls_def accepted_append)

lemma s1_round_break:
  assumes "s1_round rt self problem pr verbose L s = (Inr (Break, L'), s')"
  shows "iteration L' = iteration L + 1 \<and>
    ((s1_solved L' \<and> s2_solved L' = s2_solved L \<and> s2_time L' = s2_time L
        \<and> s2_calls (trace s') = s2_calls (trace s)
        \<and> (\<exists>sol sr. accepted (trace s') = accepted (trace s) @ [(iteration L', sol)]
              \<and> solution L' = Some sol \<and> memory s' = memory s @ [(pr, sr)]
              \<and> Inr sr \<in> results (format_solution_for_memory (domain self) sol)))
     \<or> (s2_solved L' \<and> s1_solved L' = s1_solved L \<and> accepted (trace s') = accepted (trace s)
        \<and> s2_calls (trace s') = s2_calls (trace s) + 1 \<and> last (trace s') = S2_call problem
        \<and> (\<exists>s2sol meta sr. solution L' = Some s2sol \<and> memory s' = memory s @ [(pr, sr)]
              \<and> Inr (s2sol, meta) \<in> results (run_s2_solver (domain self) problem (s2_llm_solver self))
              \<and> Inr sr \<in> results (format_solution_for_memory (domain self) s2sol))))"
  using assms unfolding s1_round_def Let_def
  apply (auto elim!: py_elims split: if_splits simp: s2_calls_def accepted_append)
  apply blast+
  done

declare refine.simps [simp del]

lemma s1_round_calls:
  assumes "s1_round rt self problem pr verbose L s = (r, s')"
  shows "s1_calls (trace s') = s1_calls (trace s) + 1 \<and> s2_calls (trace s') \<le> s2_calls (trace s) + 1"
  using assms unfolding s1_round_def Let_def
  by (auto elim!: py_elims split: if_splits simp: s1_calls_def s2_calls_def)

lemma s1_round_raised:
  assumes "s1_round rt self problem pr verbose L s = (Inl e, s')"
  shows "memory s' = memory s \<and>
    (accepted (trace s') = accepted (trace s)
     \<or> (\<exists>sol. accepted (trace s') = accepted (trace s) @ [(iteration L + 1, sol)]
           \<and> Inl e \<in> results (format_solution_for_memory (domain self) sol)))"
  using assms unfolding s1_round_def Let_def
  by (auto elim!: py_elims split: if_splits simp: accepted_append)

lemma s1_round_escalation:
  assumes "s1_round rt self problem pr verbose L s = (Inr (Break, L'), s')"
    and "accepted (trace s') = accepted (trace s)"
  shows "iteration L' = max_iterations self \<or> (\<exists>h. get_no_improvement_flag rt h = Inr True)"
  using assms unfolding s1_round_def Let_def
  apply (auto elim!: py_elims split: if_splits simp: accepted_append)
  apply (metis)+
  done

lemma s1_round_rejected:
  assumes "s1_round rt self problem pr verbose L s = (Inr (c, L'), s')"
    and "accepted (trace s') = accepted (trace s)"
  shows "\<exists>sol fb. Inr (False, fb) \<in> results (validate_solution (domain self) problem sol)"
  using assms unfolding s1_round_def Let_def
  apply (auto elim!: py_elims split: if_splits simp: accepted_append)
  apply blast+
  done

lemma s1_round_accepted:
  assumes "s1_round rt self problem pr verbose L s = (Inr (c, L'), s')"
    and "accepted (trace s') \<noteq> accepted (trace s)"
  shows "\<exists>sol fb. Inr (True, fb) \<in> results (validate_solution (domain self) problem sol)"
  using assms unfolding s1_round_def Let_def
  apply (auto elim!: py_elims split: if_splits simp: accepted_append)
  apply blast+
  done


lemma refine_cases:
  assumes "refine rt self problem pr verbose L s = (r, s')"
  obtains (finished) "\<not> iteration L < max_iterations self" "r = Inr L" "s' = s"
  | (raised) e where "iteration L < max_iterations self"
      "s1_round rt self problem pr verbose L s = (Inl e, s')" "r = Inl e"
  | (broke) L' where "iteration L < max_iterations self"
      "s1_round rt self problem pr verbose L s = (Inr (Break, L'), s')" "r = Inr L'"
  | (continued) L1 s1 where "iteration L < max_iterations self"
      "s1_round rt self problem pr verbose L s = (Inr (Continue, L1), s1)"
      "refine rt self problem pr verbose L1 s1 = (r, s')"
proof (cases "iteration L < max_iterations self")
  case False
  with assms have "r = Inr L" "s' = s" by (simp_all add: refine.simps)
  with False show thesis by (rule finished)
next
  case True
  obtain x s1 where rd: "s1_round rt self problem pr verbose L s = (x, s1)"
    by (cases "s1_round rt self problem pr verbose L s") auto
  show thesis
  proof (cases x)
    case (Inl e)
    with True rd assms have "r = Inl e" "s1 = s'" by (simp_all add: refine.simps)
    with True rd Inl show thesis by (auto intro: raised)
  next
    case (Inr cl)
    obtain c L1 where cl: "cl = (c, L1)" by (cases cl) auto
    show thesis
    proof (cases c)
      case Break
      with True rd assms Inr cl have "r = Inr L1" "s1 = s'" by (simp_all add: refine.simps)
      with True rd Inr cl Break show thesis by (auto intro: broke)
    next
      case Continue
      with True rd assms Inr cl have "refine rt self problem pr verbose L1 s1 = (r, s')"
        by (simp add: refine.simps)
      with True rd Inr cl Continue show thesis by (auto intro: continued)
    qed
  qed
qed

section \<open>Reasoning about the loop\<close>

lemma refine_calls:
  assumes "refine rt self problem pr verbose L s = (r, s')"
  shows "s1_calls (trace s') \<le> s1_calls (trace s) + nat (max_iterations self - iteration L)
       \<and> s2_calls (trace s') \<le> s2_calls (trace s) + 1"
  using assms
proof (induction "nat (max_iterations self - iteration L)" arbitrary: L s rule: less_induct)
  case less
  from less.prems show ?case
  proof (cases rule: refine_cases)
    case finished
    then show ?thesis by simp
  next
    case (raised e)
    with s1_round_calls [OF raised(2)] show ?thesis by auto
  next
    case (broke L')
    with s1_round_calls [OF broke(2)] show ?thesis by auto
  next
    case (continued L1 s1)
    note c = s1_round_continue [OF continued(2)] and k = s1_round_calls [OF continued(2)]
    from c continued(1) have "nat (max_iterations self - iteration L1) < nat (max_iterations self - iteration L)"
      by simp
    from less.hyps [OF this continued(3)] c k continued(1) show ?thesis by auto
  qed
qed

lemma refine_returns:
  assumes "refine rt self problem pr verbose L s = (Inr L', s')"
    and "\<not> s1_solved L" "\<not> s2_solved L" "s2_time L = 0"
  shows "\<not> (s1_solved L' \<and> s2_solved L') \<and> (s1_solved L' \<longrightarrow> s2_time L' = 0)
       \<and> (iteration L < max_iterations self \<longrightarrow>
             (s1_solved L' \<or> s2_solved L') \<and> iteration L < iteration L' \<and> iteration L' \<le> max_iterations self)
       \<and> (\<not> iteration L < max_iterations self \<longrightarrow> L' = L)
       \<and> s1_calls (trace s') = s1_calls (trace s) + nat (iteration L' - iteration L)"
  using assms
proof (induction "nat (max_iterations self - iteration L)" arbitrary: L s rule: less_induct)
  case less
  from less.prems(1) show ?case
  proof (cases rule: refine_cases)
    case finished
    then show ?thesis using less.prems by simp
  next
    case (raised e)
    then show ?thesis by simp
  next
    case (broke L1)
    with s1_round_break [OF broke(2)] s1_round_calls [OF broke(2)] less.prems show ?thesis by auto
  next
    case (continued L1 s1)
    note c = s1_round_continue [OF continued(2)] and k = s1_round_calls [OF continued(2)]
    from c continued(1) have m: "nat (max_iterations self - iteration L1) < nat (max_iterations self - iteration L)"
      and lt: "iteration L1 < max_iterations self" by simp_all
    from c less.prems have p: "\<not> s1_solved L1" "\<not> s2_solved L1" "s2_time L1 = 0" by simp_all
    from less.hyps [OF m continued(3) p] c k continued(1) lt show ?thesis by auto
  qed
qed

lemma refine_escalates:
  assumes "refine rt self problem pr verbose L s = (Inr L', s')"
    and "accepted (trace s') = accepted (trace s)"
    and "\<not> s1_solved L" "iteration L < max_iterations self"
  shows "s2_solved L' \<and> \<not> s1_solved L' \<and> s2_calls (trace s') = s2_calls (trace s) + 1
       \<and> last (trace s') = S2_call problem
       \<and> ((\<forall>h. get_no_improvement_flag rt h \<noteq> Inr True) \<longrightarrow> iteration L' = max_iterations self)
       \<and> (\<exists>s2sol meta sr. solution L' = Some s2sol \<and> memory s' = memory s @ [(pr, sr)]
              \<and> Inr (s2sol, meta) \<in> results (run_s2_solver (domain self) problem (s2_llm_solver self))
              \<and> Inr sr \<in> results (format_solution_for_memory (domain self) s2sol))"
  using assms
proof (induction "nat (max_iterations self - iteration L)" arbitrary: L s rule: less_induct)
  case less
  from less.prems(1) show ?case
  proof (cases rule: refine_cases)
    case finished
    then show ?thesis using less.prems by simp
  next
    case (raised e)
    then show ?thesis by simp
  next
    case (broke L1)
    from broke(3) have eq: "L1 = L'" by simp
    from s1_round_break [OF broke(2)] s1_round_escalation [OF broke(2)] less.prems(2,3) eq
    show ?thesis by auto
  next
    case (continued L1 s1)
    note c = s1_round_continue [OF continued(2)]
    from c continued(1) have m: "nat (max_iterations self - iteration L1) < nat (max_iterations self - iteration L)"
      and lt: "iteration L1 < max_iterations self" by simp_all
    from c less.prems have p: "accepted (trace s') = accepted (trace s1)" "\<not> s1_solved L1" by simp_all
    from less.hyps [OF m continued(3) p lt] c show ?thesis by simp
  qed
qed

lemma refine_accepts:
  assumes "refine rt self problem pr verbose L s = (Inr L', s')"
    and "accepted (trace s') \<noteq> accepted (trace s)"
  shows "\<exists>sol sr. accepted (trace s') = accepted (trace s) @ [(iteration L', sol)]
       \<and> s1_solved L' \<and> solution L' = Some sol \<and> memory s' = memory s @ [(pr, sr)]
       \<and> Inr sr \<in> results (format_solution_for_memory (domain self) sol)"
  using assms
proof (induction "nat (max_iterations self - iteration L)" arbitrary: L s rule: less_induct)
  case less
  from less.prems(1) show ?case
  proof (cases rule: refine_cases)
    case finished
    then show ?thesis using less.prems by simp
  next
    case (raised e)
    then show ?thesis by simp
  next
    case (broke L1)
    from broke(3) have eq: "L1 = L'" by simp
    from s1_round_break [OF broke(2)] less.prems(2) eq
    show ?thesis by auto
  next
    case (continued L1 s1)
    note c = s1_round_continue [OF continued(2)]
    from c continued(1) have m: "nat (max_iterations self - iteration L1) < nat (max_iterations self - iteration L)"
      by simp
    from c less.prems have p: "accepted (trace s') \<noteq> accepted (trace s1)" by simp
    from less.hyps [OF m continued(3) p] c show ?thesis by simp
  qed
qed

lemma refine_s2:
  assumes "refine rt self problem pr verbose L s = (Inr L', s')"
    and "s2_calls (trace s') \<noteq> s2_calls (trace s)"
  shows "s2_solved L' \<and> s2_calls (trace s') = s2_calls (trace s) + 1 \<and> last (trace s') = S2_call problem
       \<and> (\<exists>s2sol meta sr. solution L' = Some s2sol \<and> memory s' = memory s @ [(pr, sr)]
              \<and> Inr (s2sol, meta) \<in> results (run_s2_solver (domain self) problem (s2_llm_solver self))
              \<and> Inr sr \<in> results (format_solution_for_memory (domain self) s2sol))"
  using assms
proof (induction "nat (max_iterations self - iteration L)" arbitrary: L s rule: less_induct)
  case less
  from less.prems(1) show ?case
  proof (cases rule: refine_cases)
    case finished
    then show ?thesis using less.prems by simp
  next
    case (raised e)
    then show ?thesis by simp
  next
    case (broke L1)
    from broke(3) have eq: "L1 = L'" by simp
    from s1_round_break [OF broke(2)] less.prems(2) eq
    show ?thesis by auto
  next
    case (continued L1 s1)
    note c = s1_round_continue [OF continued(2)]
    from c continued(1) have m: "nat (max_iterations self - iteration L1) < nat (max_iterations self - iteration L)"
      by simp
    from c less.prems have p: "s2_calls (trace s') \<noteq> s2_calls (trace s1)" by simp
    from less.hyps [OF m continued(3) p] c show ?thesis by simp
  qed
qed

lemma refine_always_accepting:
  assumes "refine rt self problem pr verbose L s = (Inr L', s')"
    and "iteration L < max_iterations self"
    and "\<forall>c r. r \<in> results (validate_solution (domain self) problem c) \<longrightarrow> (\<exists>fb. r = Inr (True, fb))"
  shows "accepted (trace s') \<noteq> accepted (trace s) \<and> iteration L' = iteration L + 1"
  using assms(1)
proof (cases rule: refine_cases)
  case finished
  with assms(2) show ?thesis by simp
next
  case (raised e)
  then show ?thesis by simp
next
  case (broke L1)
  from broke(3) have eq: "L1 = L'" by simp
  have "accepted (trace s') \<noteq> accepted (trace s)"
  proof
    assume "accepted (trace s') = accepted (trace s)"
    from s1_round_rejected [OF broke(2) this] assms(3) show False by blast
  qed
  with s1_round_break [OF broke(2)] eq show ?thesis by simp
next
  case (continued L1 s1)
  from s1_round_continue [OF continued(2)] have "accepted (trace s1) = accepted (trace s)" by simp
  from s1_round_rejected [OF continued(2) this] assms(3) have False by blast
  then show ?thesis ..
qed

lemma refine_accepted:
  assumes "refine rt self problem pr verbose L s = (Inr L', s')"
    and "accepted (trace s') \<noteq> accepted (trace s)"
  shows "\<exists>sol fb. Inr (True, fb) \<in> results (validate_solution (domain self) problem sol)"
  using assms
proof (induction "nat (max_iterations self - iteration L)" arbitrary: L s rule: less_induct)
  case less
  from less.prems(1) show ?case
  proof (cases rule: refine_cases)
    case finished
    then show ?thesis using less.prems by simp
  next
    case (raised e)
    then show ?thesis by simp
  next
    case (broke L1)
    from broke(3) have "L1 = L'" by simp
    with s1_round_accepted [OF broke(2) less.prems(2)] show ?thesis by simp
  next
    case (continued L1 s1)
    note c = s1_round_continue [OF continued(2)]
    from c continued(1) have m: "nat (max_iterations self - iteration L1) < nat (max_iterations self - iteration L)"
      by simp
    from c less.prems have p: "accepted (trace s') \<noteq> accepted (trace s1)" by simp
    from less.hyps [OF m continued(3) p] show ?thesis .
  qed
qed

section \<open>Reasoning about \<open>solve\<close>\<close>

lemma solve_run:
  assumes "solve rt self problem verbose s = (r, s')"
  shows "(\<exists>e. r = Inl e \<and> trace s' = trace s \<and> memory s' = memory s)
    \<or> (\<exists>pr prompt s0 rr s1.
          refine rt self problem pr verbose
            \<lparr>iteration = 0, s1_time = 0, s2_time = 0, s1_solved = False, s2_solved = False,
             solution = None, trend_evaluator = ImprovementTrendEvaluator rt,
             messages = [\<lparr>role = ''user'', content = prompt\<rparr>]\<rparr> s0 = (rr, s1)
          \<and> trace s0 = trace s \<and> memory s0 = memory s \<and> trace s' = trace s1 \<and> memory s' = memory s1
          \<and> Inr pr \<in> results (get_problem_representation (domain self) problem)
          \<and> (case rr of Inl e \<Rightarrow> r = Inl e
              | Inr L \<Rightarrow> (\<exists>out. r = Inr out \<and> res_solved out = (s1_solved L \<or> s2_solved L)
                    \<and> res_solution out = solution L \<and> res_s1_solved out = s1_solved L
                    \<and> res_s2_solved out = s2_solved L \<and> res_iterations out = iteration L
                    \<and> res_s2_time out = s2_time L)))"
  using assms unfolding solve_def
  apply (elim py_elims)
                apply (auto split: if_splits elim!: py_elims)
  apply (fastforce split: sum.splits)+
  done

lemma solve_returns:
  assumes "solve rt self problem verbose s = (Inr out, s')"
  obtains pr prompt s0 L s1 where
    "refine rt self problem pr verbose
       \<lparr>iteration = 0, s1_time = 0, s2_time = 0, s1_solved = False, s2_solved = False,
        solution = None, trend_evaluator = ImprovementTrendEvaluator rt,
        messages = [\<lparr>role = ''user'', content = prompt\<rparr>]\<rparr> s0 = (Inr L, s1)"
    "trace s0 = trace s" "memory s0 = memory s" "trace s' = trace s1" "memory s' = memory s1"
    "Inr pr \<in> results (get_problem_representation (domain self) problem)"
    "res_solved out = (s1_solved L \<or> s2_solved L)" "res_solution out = solution L"
    "res_s1_solved out = s1_solved L" "res_s2_solved out = s2_solved L"
    "res_iterations out = iteration L" "res_s2_time out = s2_time L"
proof -
  from solve_run [OF assms] show thesis
    apply (elim disjE exE conjE)
     apply simp
    subgoal for pr prompt s0 rr s1
      apply (cases rr)
       apply simp
      apply clarsimp
      apply (rule that [of pr prompt s0 _ s1])
                apply simp_all
      done
    done
qed

section \<open>Reasoning about the domains\<close>

lemma results_I: "f w = (r, w') \<Longrightarrow> r \<in> results f"
  unfolding results_def by blast

lemma results_bindE:
  assumes "r \<in> results (py_bind m f)"
  obtains e where "r = Inl e" "Inl e \<in> results m"
  | a where "Inr a \<in> results m" "r \<in> results (f a)"
proof -
  from assms obtain w w' where b: "py_bind m f w = (r, w')"
    unfolding results_def by auto
  obtain x w1 where m: "m w = (x, w1)" by (cases "m w")
  show thesis
  proof (cases x)
    case (Inl e)
    with b m have "r = Inl e" by (simp add: py_bind_def)
    moreover from m Inl have "Inl e \<in> results m" unfolding results_def by blast
    ultimately show thesis by (rule that(1))
  next
    case (Inr a)
    with b m have "f a w1 = (r, w')" by (simp add: py_bind_def)
    then have "r \<in> results (f a)" unfolding results_def by blast
    moreover from m Inr have "Inr a \<in> results m" unfolding results_def by blast
    ultimately show thesis using that(2) by blast
  qed
qed

lemma results_returnE:
  assumes "r \<in> results (py_return a)"
  obtains "r = Inr a"
  using assms unfolding results_def py_return_def by auto

lemma gc_run_s2_solver_results:
  assumes "Inr (sol, m) \<in> results (gc_run_s2_solver chat pg problem model)"
  shows "\<exists>prompt resp. Inr prompt \<in> results (pg (graph_repr problem) (min_colors problem) None)
       \<and> Inr resp \<in> results (generate_response chat model [\<lparr>role = ''user'', content = prompt\<rparr>])
       \<and> sol = parse_coloring resp"
  using assms unfolding gc_run_s2_solver_def gc_build_prompt_def Let_def
  by (auto elim!: results_bindE results_returnE)

lemmas string_defs = strip_def isspace_def match_assignment_def isword_def isdigit_def
  int_of_digits_def parse_coloring_def re_search_between_def parse_fixed_code_def Let_def




lemma parse_coloring_example: "parse_coloring ''(a 1)
  (b 22)
junk
(a 3)'' = [(''a'', 3), (''b'', 22)]"
  by (simp add: parse_coloring_def strip_def isspace_def match_assignment_def isword_def isdigit_def
      int_of_digits_def Let_def)

lemma gc_format_solution_for_memory_example: "gc_format_solution_for_memory [(''a'', 3), (''b'', 22)] = ''(a 3)
(b 22)''"
  by (simp add: gc_format_solution_for_memory_def str_int_def str_nat.simps)

lemma parse_fixed_code_tags: "parse_fixed_code ''Here: <code>
  x = 1
</code> done'' = ''x = 1''"
  by (simp add: string_defs)

lemma parse_fixed_code_fence: "parse_fixed_code ''```python
x = 1
``` and ```y```'' = ''x = 1''"
  by (simp add: string_defs)

lemma parse_fixed_code_prose: "parse_fixed_code '' I cannot fix this. '' = ''I cannot fix this.''"
  by (simp add: string_defs)

section \<open>Runs of the concrete instances\<close>

lemmas demo_defs = demo_domain_def demo_runtime_def demo_module_def demo_state_def
  solve_def refine.simps s1_round_def py_bind_def py_return_def in_world_def now_def raise_or_def
  observe_def add_memory_def generate_response_def Let_def

lemma demo_run_1:
  "solve demo_runtime (demo_module 1) ''p'' False (demo_state [False]) =
     (Inr \<lparr>res_solved = True, res_solution = Some ''s2 answer'', res_s1_solved = False, res_s2_solved = True,
           res_iterations = 1, res_s1_time = 1, res_s2_time = 1, res_total_time = 5\<rparr>,
      \<lparr>world = ([], 6), memory = [(''p'', ''s2 answer'')],
       trace = [S1_call 1 [\<lparr>role = ''user'', content = ''p''\<rparr>], Validated 1 ''s1 answer'' False, S2_call ''p'']\<rparr>)"
  by (simp add: demo_defs)

lemma demo_run_2:
  "solve demo_runtime (demo_module 3) ''p'' False (demo_state [False, True]) =
     (Inr \<lparr>res_solved = True, res_solution = Some ''s1 answer'', res_s1_solved = True, res_s2_solved = False,
           res_iterations = 2, res_s1_time = 2, res_s2_time = 0, res_total_time = 5\<rparr>,
      \<lparr>world = ([], 6), memory = [(''p'', ''s1 answer'')],
       trace = [S1_call 1 [\<lparr>role = ''user'', content = ''p''\<rparr>], Validated 1 ''s1 answer'' False,
                S1_call 2 [\<lparr>role = ''user'', content = ''p''\<rparr>, \<lparr>role = ''assistant'', content = ''s1 answer''\<rparr>,
                           \<lparr>role = ''user'', content = ''Feedback: conflict''\<rparr>],
                Validated 2 ''s1 answer'' True]\<rparr>)"
  by (simp add: demo_defs)

lemma demo_run_3:
  "solve demo_runtime (accepting_module 5) ''p'' False (demo_state []) =
     (Inr \<lparr>res_solved = True, res_solution = Some ''s1 answer'', res_s1_solved = True, res_s2_solved = False,
           res_iterations = 1, res_s1_time = 1, res_s2_time = 0, res_total_time = 3\<rparr>,
      \<lparr>world = ([], 4), memory = [(''p'', ''s1 answer'')],
       trace = [S1_call 1 [\<lparr>role = ''user'', content = ''p''\<rparr>], Validated 1 ''s1 answer'' True]\<rparr>)"
  by (simp add: accepting_module_def demo_defs)

lemma demo_run_4:
  "solve demo_runtime (rejecting_module 1) ''p'' False (demo_state []) =
     (Inr \<lparr>res_solved = True, res_solution = Some ''s2 answer'', res_s1_solved = False, res_s2_solved = True,
           res_iterations = 1, res_s1_time = 1, res_s2_time = 1, res_total_time = 5\<rparr>,
      \<lparr>world = ([], 6), memory = [(''p'', ''s2 answer'')],
       trace = [S1_call 1 [\<lparr>role = ''user'', content = ''p''\<rparr>], Validated 1 ''s1 answer'' False, S2_call ''p'']\<rparr>)"
  by (simp add: rejecting_module_def demo_defs)


lemma demo_graph_s2:
  "run_s2_solver (GraphColoringDomain demo_chat demo_prompt_generator demo_validate_coloring)
     demo_graph ''deepseek-r1:1.5b'' () = (Inr ([(''a'', 1), (''b'', 2)], 2), ())"
  by (simp add: GraphColoringDomain_def gc_run_s2_solver_def gc_build_prompt_def generate_response_def
      demo_chat_def demo_prompt_generator_def demo_graph_def py_bind_def py_return_def string_defs)



section \<open>Properties of the controller and of the domains\<close>

text \<open>
  C1: when \<open>validate_solution\<close> accepts the parsed S1 solution \<open>sol\<close> on iteration \<open>i\<close> of a
  \<open>solve\<close> call that returns, the returned dict has \<open>solved\<close> and \<open>s1_solved\<close> true,
  \<open>iterations = i\<close> (with \<open>1 \<le> i \<le> max_iterations\<close>) and \<open>sol\<close> as its solution, and the episodic
  memory has grown by exactly one entry: the problem representation paired with the
  representation of \<open>sol\<close> that \<open>format_solution_for_memory\<close> returned. Stated from the
  collaborators: when \<open>max_iterations \<ge> 1\<close> and \<open>validate_solution\<close> accepts whatever it is given, a call
  that returns has made one S1 call and no S2 call, its first parsed solution was accepted, and the
  outcome is that of an acceptance on iteration 1.
\<close>

theorem solve_accepts_s1_solution:
  assumes "solve rt self problem verbose s = (Inr out, s')"
  shows "(trace s = [] \<and> (i, sol) \<in> set (accepted (trace s')) \<longrightarrow>
            res_solved out \<and> res_s1_solved out \<and> \<not> res_s2_solved out
          \<and> res_iterations out = i \<and> res_solution out = Some sol
          \<and> 1 \<le> i \<and> i \<le> max_iterations self \<and> accepted (trace s') = [(i, sol)]
          \<and> (\<exists>pr sr. memory s' = memory s @ [(pr, sr)]
               \<and> Inr pr \<in> results (get_problem_representation (domain self) problem)
               \<and> Inr sr \<in> results (format_solution_for_memory (domain self) sol)))
       \<and> (1 \<le> max_iterations self
            \<and> (\<forall>c r. r \<in> results (validate_solution (domain self) problem c) \<longrightarrow> (\<exists>fb. r = Inr (True, fb))) \<longrightarrow>
            res_solved out \<and> res_s1_solved out \<and> \<not> res_s2_solved out \<and> res_iterations out = 1
          \<and> s1_calls (trace s') = s1_calls (trace s) + 1 \<and> s2_calls (trace s') = s2_calls (trace s)
          \<and> (\<exists>c pr sr. accepted (trace s') = accepted (trace s) @ [(1, c)] \<and> res_solution out = Some c
               \<and> memory s' = memory s @ [(pr, sr)]
               \<and> Inr pr \<in> results (get_problem_representation (domain self) problem)
               \<and> Inr sr \<in> results (format_solution_for_memory (domain self) c)))"
proof -
  from assms obtain pr prompt s0 L s1 where
    r: "refine rt self problem pr verbose
       \<lparr>iteration = 0, s1_time = 0, s2_time = 0, s1_solved = False, s2_solved = False,
        solution = None, trend_evaluator = ImprovementTrendEvaluator rt,
        messages = [\<lparr>role = ''user'', content = prompt\<rparr>]\<rparr> s0 = (Inr L, s1)"
    and t: "trace s0 = trace s" "memory s0 = memory s" "trace s' = trace s1" "memory s' = memory s1"
    and p: "Inr pr \<in> results (get_problem_representation (domain self) problem)"
    and o: "res_solved out = (s1_solved L \<or> s2_solved L)" "res_solution out = solution L"
      "res_s1_solved out = s1_solved L" "res_s2_solved out = s2_solved L" "res_iterations out = iteration L"
    by (rule solve_returns)
  note b = refine_returns [OF r]
  have accepted_outcome: "res_solved out \<and> res_s1_solved out \<and> \<not> res_s2_solved out
      \<and> 1 \<le> iteration L \<and> iteration L \<le> max_iterations self
      \<and> s1_calls (trace s') = s1_calls (trace s) + nat (iteration L)
      \<and> s2_calls (trace s') = s2_calls (trace s)
      \<and> (\<exists>c pr sr. accepted (trace s') = accepted (trace s) @ [(iteration L, c)] \<and> res_solution out = Some c
               \<and> res_iterations out = iteration L
               \<and> memory s' = memory s @ [(pr, sr)]
               \<and> Inr pr \<in> results (get_problem_representation (domain self) problem)
               \<and> Inr sr \<in> results (format_solution_for_memory (domain self) c))"
    if ne: "accepted (trace s1) \<noteq> accepted (trace s0)"
  proof -
    from refine_accepts [OF r ne] obtain c sr where
      a: "accepted (trace s1) = accepted (trace s0) @ [(iteration L, c)]" "s1_solved L" "solution L = Some c"
        "memory s1 = memory s0 @ [(pr, sr)]"
        "Inr sr \<in> results (format_solution_for_memory (domain self) c)"
      by blast
    from b a(2) have b1: "\<not> s2_solved L" "0 < iteration L" "iteration L \<le> max_iterations self"
      "s1_calls (trace s1) = s1_calls (trace s0) + nat (iteration L)"
      by auto
    have "s2_calls (trace s1) = s2_calls (trace s0)"
    proof (rule ccontr)
      assume "s2_calls (trace s1) \<noteq> s2_calls (trace s0)"
      from refine_s2 [OF r this] b1(1) show False by simp
    qed
    with a b1 t o p show ?thesis by auto
  qed
  have first: "res_solved out \<and> res_s1_solved out \<and> \<not> res_s2_solved out
          \<and> res_iterations out = i \<and> res_solution out = Some sol
          \<and> 1 \<le> i \<and> i \<le> max_iterations self \<and> accepted (trace s') = [(i, sol)]
          \<and> (\<exists>pr sr. memory s' = memory s @ [(pr, sr)]
               \<and> Inr pr \<in> results (get_problem_representation (domain self) problem)
               \<and> Inr sr \<in> results (format_solution_for_memory (domain self) sol))"
    if h: "trace s = [] \<and> (i, sol) \<in> set (accepted (trace s'))"
  proof -
    from h t have "accepted (trace s1) \<noteq> accepted (trace s0)" by auto
    from accepted_outcome [OF this] h t o show ?thesis by auto
  qed
  have second: "res_solved out \<and> res_s1_solved out \<and> \<not> res_s2_solved out \<and> res_iterations out = 1
          \<and> s1_calls (trace s') = s1_calls (trace s) + 1 \<and> s2_calls (trace s') = s2_calls (trace s)
          \<and> (\<exists>c pr sr. accepted (trace s') = accepted (trace s) @ [(1, c)] \<and> res_solution out = Some c
               \<and> memory s' = memory s @ [(pr, sr)]
               \<and> Inr pr \<in> results (get_problem_representation (domain self) problem)
               \<and> Inr sr \<in> results (format_solution_for_memory (domain self) c))"
    if h: "1 \<le> max_iterations self
            \<and> (\<forall>c r. r \<in> results (validate_solution (domain self) problem c) \<longrightarrow> (\<exists>fb. r = Inr (True, fb)))"
  proof -
    from h have lt: "iteration \<lparr>iteration = 0, s1_time = 0, s2_time = 0, s1_solved = False, s2_solved = False,
        solution = None, trend_evaluator = ImprovementTrendEvaluator rt,
        messages = [\<lparr>role = ''user'', content = prompt\<rparr>]\<rparr> < max_iterations self" by simp
    from h have all: "\<forall>c r. r \<in> results (validate_solution (domain self) problem c) \<longrightarrow> (\<exists>fb. r = Inr (True, fb))"
      by simp
    from refine_always_accepting [OF r lt all]
    have ne: "accepted (trace s1) \<noteq> accepted (trace s0)" and it: "iteration L = 1" by simp_all
    from accepted_outcome [OF ne] it o show ?thesis by auto
  qed
  from first second show ?thesis by blast
qed

theorem solve_accepts_s1_solution_witness:
  "solve demo_runtime (demo_module 3) ''p'' False (demo_state [False, True]) =
     (Inr \<lparr>res_solved = True, res_solution = Some ''s1 answer'', res_s1_solved = True, res_s2_solved = False,
           res_iterations = 2, res_s1_time = 2, res_s2_time = 0, res_total_time = 5\<rparr>,
      \<lparr>world = ([], 6), memory = [(''p'', ''s1 answer'')],
       trace = [S1_call 1 [\<lparr>role = ''user'', content = ''p''\<rparr>], Validated 1 ''s1 answer'' False,
                S1_call 2 [\<lparr>role = ''user'', content = ''p''\<rparr>, \<lparr>role = ''assistant'', content = ''s1 answer''\<rparr>,
                           \<lparr>role = ''user'', content = ''Feedback: conflict''\<rparr>],
                Validated 2 ''s1 answer'' True]\<rparr>)
   \<and> trace (demo_state [False, True]) = []
   \<and> accepted [S1_call 1 [\<lparr>role = ''user'', content = ''p''\<rparr>], Validated 1 ''s1 answer'' False,
                S1_call 2 [\<lparr>role = ''user'', content = ''p''\<rparr>, \<lparr>role = ''assistant'', content = ''s1 answer''\<rparr>,
                           \<lparr>role = ''user'', content = ''Feedback: conflict''\<rparr>],
                Validated 2 ''s1 answer'' True] = [(2, ''s1 answer'')]
   \<and> 2 \<le> max_iterations (demo_module 3)
   \<and> memory (demo_state [False, True]) @ [(''p'', ''s1 answer'')] = [(''p'', ''s1 answer'')]
   \<and> solve demo_runtime (accepting_module 5) ''p'' False (demo_state []) =
     (Inr \<lparr>res_solved = True, res_solution = Some ''s1 answer'', res_s1_solved = True, res_s2_solved = False,
           res_iterations = 1, res_s1_time = 1, res_s2_time = 0, res_total_time = 3\<rparr>,
      \<lparr>world = ([], 4), memory = [(''p'', ''s1 answer'')],
       trace = [S1_call 1 [\<lparr>role = ''user'', content = ''p''\<rparr>], Validated 1 ''s1 answer'' True]\<rparr>)
   \<and> 1 \<le> max_iterations (accepting_module 5)
   \<and> s1_calls [S1_call 1 [\<lparr>role = ''user'', content = ''p''\<rparr>], Validated 1 ''s1 answer'' True]
       = s1_calls (trace (demo_state [])) + 1"
proof -
  note first = solve_accepts_s1_solution [OF demo_run_2, of 2 "''s1 answer''", THEN conjunct1, THEN mp]
  note second = solve_accepts_s1_solution [OF demo_run_3, of 1 "''s1 answer''", THEN conjunct2, THEN mp]
  have h: "\<forall>c r. r \<in> results (validate_solution (domain (accepting_module 5)) ''p'' c)
             \<longrightarrow> (\<exists>fb. r = Inr (True, fb))"
    by (auto simp add: accepting_module_def results_def)
  have a: "res_iterations \<lparr>res_solved = True, res_solution = Some ''s1 answer'', res_s1_solved = True,
             res_s2_solved = False, res_iterations = 2, res_s1_time = 2, res_s2_time = 0, res_total_time = 5\<rparr> = 2"
    by (rule first [THEN conjunct2, THEN conjunct2, THEN conjunct2, THEN conjunct1])
      (simp add: demo_state_def)
  have b: "res_iterations \<lparr>res_solved = True, res_solution = Some ''s1 answer'', res_s1_solved = True,
             res_s2_solved = False, res_iterations = 1, res_s1_time = 1, res_s2_time = 0, res_total_time = 3\<rparr> = 1"
    by (rule second [THEN conjunct2, THEN conjunct2, THEN conjunct2, THEN conjunct1])
      (simp add: accepting_module_def h)
  from a b demo_run_2 demo_run_3 show ?thesis
    by (simp add: demo_state_def demo_module_def accepting_module_def s1_calls_def)
qed



text \<open>
  C3: when a \<open>solve\<close> call that returns has invoked the S2 solver, it invoked it once, on the
  problem and the S2 model alone, and nothing was validated afterwards (the S2 call is the last
  observation); the outcome has \<open>solved\<close> and \<open>s2_solved\<close> true, its solution is the one the S2
  solver returned, and that solution's representation was appended to the episodic memory.
  Stated from the collaborators: when \<open>max_iterations \<ge> 1\<close> and \<open>validate_solution\<close> rejects
  whatever it is given, so that the S2 solution would fail it too, a call that returns has
  escalated, with that outcome. For the graph colouring domain, what the S2 solver returns is the
  parse of the S2 agent's answer to one user message, the prompt generated with no additional
  examples.
\<close>

theorem solve_escalation_is_final:
  assumes "solve rt self problem verbose s = (Inr out, s')"
  shows "(s2_calls (trace s') \<noteq> s2_calls (trace s)
            \<or> 1 \<le> max_iterations self
               \<and> (\<forall>c r. r \<in> results (validate_solution (domain self) problem c) \<longrightarrow> (\<exists>fb. r = Inr (False, fb)))
          \<longrightarrow>
            res_solved out \<and> res_s2_solved out \<and> \<not> res_s1_solved out
          \<and> s2_calls (trace s') = s2_calls (trace s) + 1 \<and> last (trace s') = S2_call problem
          \<and> (\<exists>s2sol meta pr sr. res_solution out = Some s2sol
               \<and> Inr (s2sol, meta) \<in> results (run_s2_solver (domain self) problem (s2_llm_solver self))
               \<and> memory s' = memory s @ [(pr, sr)]
               \<and> Inr pr \<in> results (get_problem_representation (domain self) problem)
               \<and> Inr sr \<in> results (format_solution_for_memory (domain self) s2sol)))
       \<and> (Inr (coloring, max_color)
              \<in> results (run_s2_solver (GraphColoringDomain chat pg vc) graph model) \<longrightarrow>
           (\<exists>prompt response.
              Inr prompt \<in> results (pg (graph_repr graph) (min_colors graph) None)
              \<and> Inr response \<in> results (generate_response chat model [\<lparr>role = ''user'', content = prompt\<rparr>])
              \<and> coloring = parse_coloring response))"
proof -
  from assms(1) obtain pr prompt s0 L s1 where
    r: "refine rt self problem pr verbose
       \<lparr>iteration = 0, s1_time = 0, s2_time = 0, s1_solved = False, s2_solved = False,
        solution = None, trend_evaluator = ImprovementTrendEvaluator rt,
        messages = [\<lparr>role = ''user'', content = prompt\<rparr>]\<rparr> s0 = (Inr L, s1)"
    and t: "trace s0 = trace s" "memory s0 = memory s" "trace s' = trace s1" "memory s' = memory s1"
    and p: "Inr pr \<in> results (get_problem_representation (domain self) problem)"
    and o: "res_solved out = (s1_solved L \<or> s2_solved L)" "res_solution out = solution L"
      "res_s1_solved out = s1_solved L" "res_s2_solved out = s2_solved L"
    by (rule solve_returns)
  have escalated: "res_solved out \<and> res_s2_solved out \<and> \<not> res_s1_solved out
       \<and> s2_calls (trace s') = s2_calls (trace s) + 1 \<and> last (trace s') = S2_call problem
       \<and> (\<exists>s2sol meta pr sr. res_solution out = Some s2sol
            \<and> Inr (s2sol, meta) \<in> results (run_s2_solver (domain self) problem (s2_llm_solver self))
            \<and> memory s' = memory s @ [(pr, sr)]
            \<and> Inr pr \<in> results (get_problem_representation (domain self) problem)
            \<and> Inr sr \<in> results (format_solution_for_memory (domain self) s2sol))"
    if ne: "s2_calls (trace s1) \<noteq> s2_calls (trace s0)"
  proof -
    from refine_s2 [OF r ne] obtain s2sol meta sr where
      a: "s2_solved L" "s2_calls (trace s1) = s2_calls (trace s0) + 1" "last (trace s1) = S2_call problem"
        "solution L = Some s2sol" "memory s1 = memory s0 @ [(pr, sr)]"
        "Inr (s2sol, meta) \<in> results (run_s2_solver (domain self) problem (s2_llm_solver self))"
        "Inr sr \<in> results (format_solution_for_memory (domain self) s2sol)"
      by blast
    from refine_returns [OF r] a(1) have b: "\<not> s1_solved L" by auto
    from a b t o p show ?thesis by auto
  qed
  have rejecting: "s2_calls (trace s1) \<noteq> s2_calls (trace s0)"
    if h: "1 \<le> max_iterations self
           \<and> (\<forall>c r. r \<in> results (validate_solution (domain self) problem c) \<longrightarrow> (\<exists>fb. r = Inr (False, fb)))"
  proof -
    have same: "accepted (trace s1) = accepted (trace s0)"
    proof (rule ccontr)
      assume "accepted (trace s1) \<noteq> accepted (trace s0)"
      from refine_accepted [OF r this] h show False by blast
    qed
    from h have lt: "iteration \<lparr>iteration = 0, s1_time = 0, s2_time = 0, s1_solved = False, s2_solved = False,
        solution = None, trend_evaluator = ImprovementTrendEvaluator rt,
        messages = [\<lparr>role = ''user'', content = prompt\<rparr>]\<rparr> < max_iterations self" by simp
    from refine_escalates [OF r same _ lt] show ?thesis by simp
  qed
  have controller: "s2_calls (trace s') \<noteq> s2_calls (trace s)
            \<or> 1 \<le> max_iterations self
               \<and> (\<forall>c r. r \<in> results (validate_solution (domain self) problem c) \<longrightarrow> (\<exists>fb. r = Inr (False, fb)))
          \<longrightarrow>
            res_solved out \<and> res_s2_solved out \<and> \<not> res_s1_solved out
          \<and> s2_calls (trace s') = s2_calls (trace s) + 1 \<and> last (trace s') = S2_call problem
          \<and> (\<exists>s2sol meta pr sr. res_solution out = Some s2sol
               \<and> Inr (s2sol, meta) \<in> results (run_s2_solver (domain self) problem (s2_llm_solver self))
               \<and> memory s' = memory s @ [(pr, sr)]
               \<and> Inr pr \<in> results (get_problem_representation (domain self) problem)
               \<and> Inr sr \<in> results (format_solution_for_memory (domain self) s2sol))"
  proof
    assume "s2_calls (trace s') \<noteq> s2_calls (trace s)
            \<or> 1 \<le> max_iterations self
               \<and> (\<forall>c r. r \<in> results (validate_solution (domain self) problem c) \<longrightarrow> (\<exists>fb. r = Inr (False, fb)))"
    then have "s2_calls (trace s1) \<noteq> s2_calls (trace s0)"
    proof
      assume "s2_calls (trace s') \<noteq> s2_calls (trace s)"
      with t show ?thesis by simp
    next
      assume "1 \<le> max_iterations self
               \<and> (\<forall>c r. r \<in> results (validate_solution (domain self) problem c) \<longrightarrow> (\<exists>fb. r = Inr (False, fb)))"
      then show ?thesis by (rule rejecting)
    qed
    then show "res_solved out \<and> res_s2_solved out \<and> \<not> res_s1_solved out
          \<and> s2_calls (trace s') = s2_calls (trace s) + 1 \<and> last (trace s') = S2_call problem
          \<and> (\<exists>s2sol meta pr sr. res_solution out = Some s2sol
               \<and> Inr (s2sol, meta) \<in> results (run_s2_solver (domain self) problem (s2_llm_solver self))
               \<and> memory s' = memory s @ [(pr, sr)]
               \<and> Inr pr \<in> results (get_problem_representation (domain self) problem)
               \<and> Inr sr \<in> results (format_solution_for_memory (domain self) s2sol))"
      by (rule escalated)
  qed
  have "Inr (coloring, max_color)
              \<in> results (run_s2_solver (GraphColoringDomain chat pg vc) graph model) \<longrightarrow>
           (\<exists>prompt response.
              Inr prompt \<in> results (pg (graph_repr graph) (min_colors graph) None)
              \<and> Inr response \<in> results (generate_response chat model [\<lparr>role = ''user'', content = prompt\<rparr>])
              \<and> coloring = parse_coloring response)"
    using gc_run_s2_solver_results [of coloring max_color chat pg graph model]
    by (simp add: GraphColoringDomain_def)
  with controller show ?thesis by (rule conjI)
qed

theorem solve_escalation_is_final_witness:
  "solve demo_runtime (rejecting_module 1) ''p'' False (demo_state []) =
     (Inr \<lparr>res_solved = True, res_solution = Some ''s2 answer'', res_s1_solved = False, res_s2_solved = True,
           res_iterations = 1, res_s1_time = 1, res_s2_time = 1, res_total_time = 5\<rparr>,
      \<lparr>world = ([], 6), memory = [(''p'', ''s2 answer'')],
       trace = [S1_call 1 [\<lparr>role = ''user'', content = ''p''\<rparr>], Validated 1 ''s1 answer'' False, S2_call ''p'']\<rparr>)
   \<and> 1 \<le> max_iterations (rejecting_module 1)
   \<and> fst (validate_solution (domain (rejecting_module 1)) ''p'' ''s2 answer'' ([], 6)) = Inr (False, ''conflict'')
   \<and> s2_calls [S1_call 1 [\<lparr>role = ''user'', content = ''p''\<rparr>], Validated 1 ''s1 answer'' False, S2_call ''p'']
       = s2_calls (trace (demo_state [])) + 1
   \<and> last [S1_call 1 [\<lparr>role = ''user'', content = ''p''\<rparr>], Validated 1 ''s1 answer'' False, S2_call ''p'']
       = S2_call ''p''
   \<and> run_s2_solver (GraphColoringDomain demo_chat demo_prompt_generator demo_validate_coloring)
        demo_graph ''deepseek-r1:1.5b'' () = (Inr ([(''a'', 1), (''b'', 2)], 2), ())
   \<and> (\<exists>prompt response.
          Inr prompt \<in> results (demo_prompt_generator (graph_repr demo_graph) (min_colors demo_graph) None)
          \<and> Inr response \<in> results (generate_response demo_chat ''deepseek-r1:1.5b'' [\<lparr>role = ''user'', content = prompt\<rparr>])
          \<and> [(''a'', 1), (''b'', 2)] = parse_coloring response)"
proof -
  note t = solve_escalation_is_final [OF demo_run_4, of "[(''a'', 1), (''b'', 2)]" 2 demo_chat
      demo_prompt_generator demo_validate_coloring demo_graph "''deepseek-r1:1.5b''"]
  have h: "1 \<le> max_iterations (rejecting_module 1)
      \<and> (\<forall>c r. r \<in> results (validate_solution (domain (rejecting_module 1)) ''p'' c)
             \<longrightarrow> (\<exists>fb. r = Inr (False, fb)))"
    by (auto simp add: rejecting_module_def results_def)
  have g: "Inr ([(''a'', 1), (''b'', 2)], 2)
      \<in> results (run_s2_solver (GraphColoringDomain demo_chat demo_prompt_generator demo_validate_coloring)
           demo_graph ''deepseek-r1:1.5b'')"
    using demo_graph_s2 by (rule results_I)
  from t [THEN conjunct1, THEN mp, OF disjI2, OF h]
  have a: "s2_calls (trace \<lparr>world = ([]::bool list, 6::nat), memory = [(''p'', ''s2 answer'')],
       trace = [S1_call 1 [\<lparr>role = ''user'', content = ''p''\<rparr>], Validated 1 ''s1 answer'' False, S2_call ''p'']\<rparr>)
       = s2_calls (trace (demo_state [])) + 1"
    and b: "last (trace \<lparr>world = ([]::bool list, 6::nat), memory = [(''p'', ''s2 answer'')],
       trace = [S1_call 1 [\<lparr>role = ''user'', content = ''p''\<rparr>], Validated 1 ''s1 answer'' False, S2_call ''p'']\<rparr>)
       = S2_call ''p''"
    by simp_all
  from t [THEN conjunct2, THEN mp, OF g]
  have c: "\<exists>prompt response.
          Inr prompt \<in> results (demo_prompt_generator (graph_repr demo_graph) (min_colors demo_graph) None)
          \<and> Inr response \<in> results (generate_response demo_chat ''deepseek-r1:1.5b'' [\<lparr>role = ''user'', content = prompt\<rparr>])
          \<and> [(''a'', 1), (''b'', 2)] = parse_coloring response" .
  from a b c demo_run_4 demo_graph_s2 show ?thesis
    by (simp add: rejecting_module_def demo_domain_def)
qed

text \<open>
  C4 as stated, for every value of \<open>max_iterations\<close>, does not hold: with \<open>max_iterations = 0\<close> the
  loop body never runs, no collaborator raises, and \<open>solve\<close> returns \<open>solved = False\<close> without
  calling either solver.
\<close>

theorem solve_zero_iterations_unsolved:
  "solve demo_runtime (demo_module 0) ''p'' False (demo_state []) =
     (Inr \<lparr>res_solved = False, res_solution = None, res_s1_solved = False, res_s2_solved = False,
           res_iterations = 0, res_s1_time = 0, res_s2_time = 0, res_total_time = 1\<rparr>,
      \<lparr>world = ([], 2), memory = [], trace = []\<rparr>)"
  by (simp add: demo_defs)

text \<open>
  C4, amended: for every problem and every \<open>max_iterations \<ge> 1\<close>, a \<open>solve\<close> call that returns
  (no collaborator raised) returns \<open>solved = True\<close>.
\<close>

theorem solve_solved_if_returns:
  assumes "solve rt self problem verbose s = (Inr out, s')" and "1 \<le> max_iterations self"
  shows "res_solved out"
proof -
  from assms(1) obtain pr prompt s0 L s1 where
    r: "refine rt self problem pr verbose
       \<lparr>iteration = 0, s1_time = 0, s2_time = 0, s1_solved = False, s2_solved = False,
        solution = None, trend_evaluator = ImprovementTrendEvaluator rt,
        messages = [\<lparr>role = ''user'', content = prompt\<rparr>]\<rparr> s0 = (Inr L, s1)"
    and o: "res_solved out = (s1_solved L \<or> s2_solved L)"
    by (rule solve_returns)
  from refine_returns [OF r] assms(2) o show ?thesis by simp
qed

theorem solve_solved_if_returns_witness:
  "1 \<le> max_iterations (demo_module 1)
   \<and> res_solved \<lparr>res_solved = True, res_solution = Some ''s2 answer'', res_s1_solved = False, res_s2_solved = True,
           res_iterations = 1, res_s1_time = 1, res_s2_time = 1, res_total_time = 5\<rparr>"
  using solve_solved_if_returns [OF demo_run_1] by (simp add: demo_module_def)

text \<open>
  C5 as stated, for every value of \<open>max_iterations\<close>, does not hold for a negative bound: with
  \<open>max_iterations = -1\<close> the call makes no S1 call, and 0 is not at most -1.
\<close>

theorem solve_negative_bound_calls:
  "solve demo_runtime (demo_module (- 1)) ''p'' False (demo_state []) =
     (Inr \<lparr>res_solved = False, res_solution = None, res_s1_solved = False, res_s2_solved = False,
           res_iterations = 0, res_s1_time = 0, res_s2_time = 0, res_total_time = 1\<rparr>,
      \<lparr>world = ([], 2), memory = [], trace = []\<rparr>)
   \<and> \<not> int (s1_calls (trace (snd (solve demo_runtime (demo_module (- 1)) ''p'' False (demo_state [])))))
          \<le> max_iterations (demo_module (- 1))"
  by (simp add: demo_defs s1_calls_def)

text \<open>
  C5, amended: \<open>solve\<close> terminates (\<open>refine\<close> is a total function: every round advances
  \<open>iteration\<close> towards \<open>max_iterations\<close>), and whether it returns or raises it has made at most
  \<open>max(0, max_iterations)\<close> calls of the S1 agent and at most one invocation of the S2 solver.
\<close>

theorem solve_call_bounds:
  "s1_calls (trace (snd (solve rt self problem verbose s))) \<le> s1_calls (trace s) + nat (max_iterations self)
   \<and> s2_calls (trace (snd (solve rt self problem verbose s))) \<le> s2_calls (trace s) + 1"
proof -
  obtain r s' where e: "solve rt self problem verbose s = (r, s')"
    by (cases "solve rt self problem verbose s")
  from solve_run [OF e]
  have "s1_calls (trace s') \<le> s1_calls (trace s) + nat (max_iterations self)
      \<and> s2_calls (trace s') \<le> s2_calls (trace s) + 1"
  proof (elim disjE exE conjE)
    fix x assume "trace s' = trace s"
    then show ?thesis by simp
  next
    fix pr prompt s0 rr s1
    assume r: "refine rt self problem pr verbose
       \<lparr>iteration = 0, s1_time = 0, s2_time = 0, s1_solved = False, s2_solved = False,
        solution = None, trend_evaluator = ImprovementTrendEvaluator rt,
        messages = [\<lparr>role = ''user'', content = prompt\<rparr>]\<rparr> s0 = (rr, s1)"
      and t: "trace s0 = trace s" "trace s' = trace s1"
    from refine_calls [OF r] t show ?thesis by simp
  qed
  with e show ?thesis by simp
qed









text \<open>
  C9: with fewer than two recorded samples \<open>no_improvement\<close> is false; after two identical
  consecutive samples it is true; and when the latest sample has strictly fewer violations than
  the previous one it is false.
\<close>

theorem no_improvement_cases:
  "(length history < 2 \<longrightarrow> \<not> no_improvement badness history)
   \<and> no_improvement badness (trend_update (trend_update history sample) sample)
   \<and> (badness previous = Some m \<and> badness latest = Some n \<and> n < m \<longrightarrow>
        \<not> no_improvement badness (trend_update (trend_update history previous) latest))"
proof (intro conjI impI)
  assume "length history < 2"
  then show "\<not> no_improvement badness history"
    by (simp add: no_improvement_def)
next
  have "last (butlast ((history @ [sample]) @ [sample])) = sample" "last ((history @ [sample]) @ [sample]) = sample"
    by (simp_all add: butlast_append)
  then show "no_improvement badness (trend_update (trend_update history sample) sample)"
    unfolding no_improvement_def trend_update_def
    by (cases "badness sample") simp_all
next
  assume a: "badness previous = Some m \<and> badness latest = Some n \<and> n < m"
  have "last (butlast ((history @ [previous]) @ [latest])) = previous"
    "last ((history @ [previous]) @ [latest]) = latest"
    by (simp_all add: butlast_append)
  with a show "\<not> no_improvement badness (trend_update (trend_update history previous) latest)"
    unfolding no_improvement_def trend_update_def by simp
qed

theorem no_improvement_cases_witness:
  "length [[(''a'', ''b'')]] < 2
   \<and> \<not> no_improvement (\<lambda>edges. Some (length edges)) [[(''a'', ''b'')]]
   \<and> no_improvement (\<lambda>edges. Some (length edges))
        (trend_update (trend_update [] [(''a'', ''b'')]) [(''a'', ''b'')])
   \<and> \<not> no_improvement (\<lambda>edges. Some (length edges))
        (trend_update (trend_update [[(''a'', ''b'')]] [(''a'', ''b''), (''b'', ''c'')]) [(''a'', ''b'')])"
  using no_improvement_cases [of "[[(''a'', ''b'')]]" "\<lambda>edges. Some (length edges)" "[(''a'', ''b'')]"
      "[(''a'', ''b''), (''b'', ''c'')]" 2 "[(''a'', ''b'')]" 1]
    no_improvement_cases [of "[]" "\<lambda>edges. Some (length edges)" "[(''a'', ''b'')]"]
  by simp

text \<open>
  C10: in every outcome that \<open>solve\<close> returns, \<open>s1_solved\<close> and \<open>s2_solved\<close> are never both
  true, \<open>solved\<close> is their disjunction, and \<open>s1_solved\<close> implies \<open>s2_time = 0\<close>.
\<close>

theorem solve_outcome_flags:
  assumes "solve rt self problem verbose s = (Inr out, s')"
  shows "\<not> (res_s1_solved out \<and> res_s2_solved out)
       \<and> res_solved out = (res_s1_solved out \<or> res_s2_solved out)
       \<and> (res_s1_solved out \<longrightarrow> res_s2_time out = 0)"
proof -
  from assms obtain pr prompt s0 L s1 where
    r: "refine rt self problem pr verbose
       \<lparr>iteration = 0, s1_time = 0, s2_time = 0, s1_solved = False, s2_solved = False,
        solution = None, trend_evaluator = ImprovementTrendEvaluator rt,
        messages = [\<lparr>role = ''user'', content = prompt\<rparr>]\<rparr> s0 = (Inr L, s1)"
    and o: "res_solved out = (s1_solved L \<or> s2_solved L)"
      "res_s1_solved out = s1_solved L" "res_s2_solved out = s2_solved L" "res_s2_time out = s2_time L"
    by (rule solve_returns)
  from refine_returns [OF r] o show ?thesis by simp
qed

theorem solve_outcome_flags_witness:
  "solve demo_runtime (demo_module 1) ''p'' False (demo_state [False]) =
     (Inr \<lparr>res_solved = True, res_solution = Some ''s2 answer'', res_s1_solved = False, res_s2_solved = True,
           res_iterations = 1, res_s1_time = 1, res_s2_time = 1, res_total_time = 5\<rparr>,
      \<lparr>world = ([], 6), memory = [(''p'', ''s2 answer'')],
       trace = [S1_call 1 [\<lparr>role = ''user'', content = ''p''\<rparr>], Validated 1 ''s1 answer'' False, S2_call ''p'']\<rparr>)
   \<and> \<not> (res_s1_solved \<lparr>res_solved = True, res_solution = Some ''s2 answer'', res_s1_solved = False, res_s2_solved = True,
           res_iterations = 1, res_s1_time = 1, res_s2_time = 1, res_total_time = 5\<rparr>
       \<and> res_s2_solved \<lparr>res_solved = True, res_solution = Some ''s2 answer'', res_s1_solved = False, res_s2_solved = True,
           res_iterations = 1, res_s1_time = 1, res_s2_time = 1, res_total_time = 5\<rparr>)"
  using solve_outcome_flags [OF demo_run_1] demo_run_1 by simp

end
